theory Spec2Isabelle
  imports Main
begin

section \<open>Query parsing (plugin/query.go)\<close>

subsection \<open>Go library functions used by the parser\<close>

text \<open>
  Go strings are byte sequences; \<^typ>\<open>string\<close> is a list of bytes. The parser only
  ever splits on, searches for and joins with the single space byte.
\<close>

definition space :: char where
  "space = CHR '' ''"

text \<open>
  \<^verbatim>\<open>strings.Split(s, sep)\<close> for a one-byte separator: the pieces of \<open>s\<close> between the
  occurrences of \<open>sep\<close>, in order, empty pieces included. The last equation's empty
  case never happens (\<open>strings_Split\<close> returns no empty list); it is there because
  a HOL function is total.
\<close>

fun strings_Split :: "string \<Rightarrow> char \<Rightarrow> string list" where
  "strings_Split [] sep = [[]]"
| "strings_Split (c # cs) sep =
     (if c = sep then [] # strings_Split cs sep
      else (case strings_Split cs sep of
              [] \<Rightarrow> [[c]]
            | t # ts \<Rightarrow> (c # t) # ts))"

text \<open>\<^verbatim>\<open>strings.Join(elems, sep)\<close>: the elements with \<open>sep\<close> between neighbours.\<close>

fun strings_Join :: "string list \<Rightarrow> string \<Rightarrow> string" where
  "strings_Join [] sep = []"
| "strings_Join [e] sep = e"
| "strings_Join (e # e' # es) sep = e @ sep @ strings_Join (e' # es) sep"

text \<open>\<^verbatim>\<open>strings.Contains(s, " ")\<close> for a one-byte substring.\<close>

definition strings_Contains :: "string \<Rightarrow> char \<Rightarrow> bool" where
  "strings_Contains s c = (c \<in> set s)"

text \<open>
  \<^verbatim>\<open>lo.Find(collection, predicate)\<close> returns the first element the predicate accepts
  and \<open>true\<close>, or the zero value and \<open>false\<close>; the pair is an option here.
  \<^verbatim>\<open>lo.Contains\<close> and \<^verbatim>\<open>lo.ContainsBy\<close> are membership tests.
\<close>

fun lo_Find :: "'a list \<Rightarrow> ('a \<Rightarrow> bool) \<Rightarrow> 'a option" where
  "lo_Find [] p = None"
| "lo_Find (x # xs) p = (if p x then Some x else lo_Find xs p)"

fun lo_ContainsBy :: "'a list \<Rightarrow> ('a \<Rightarrow> bool) \<Rightarrow> bool" where
  "lo_ContainsBy [] p = False"
| "lo_ContainsBy (x # xs) p = (if p x then True else lo_ContainsBy xs p)"

definition lo_Contains :: "'a list \<Rightarrow> 'a \<Rightarrow> bool" where
  "lo_Contains xs e = lo_ContainsBy xs (\<lambda>x. x = e)"

text \<open>
  Indexing and slicing a Go slice panic out of range; the panic is a value of the model.
\<close>

datatype panic = IndexOutOfRange

definition index :: "'a list \<Rightarrow> nat \<Rightarrow> panic + 'a" where
  "index xs i = (if i < length xs then Inr (xs ! i) else Inl IndexOutOfRange)"

definition slice_from :: "'a list \<Rightarrow> nat \<Rightarrow> panic + 'a list" where
  "slice_from xs i = (if i \<le> length xs then Inr (drop i xs) else Inl IndexOutOfRange)"

subsection \<open>The data of a query\<close>

text \<open>
  Modelled from the spec: the plugin registry is not part of the two source files. The
  parser reads it through \<^verbatim>\<open>GetTriggerKeywords()\<close> and \<^verbatim>\<open>GetQueryCommands()\<close> only, which
  give a plugin instance's declared trigger keywords and its declared commands; a command's
  identifier is its \<^verbatim>\<open>Command\<close> field.
\<close>

record MetadataCommand =
  Command_of :: string
  Description :: string

record Instance =
  TriggerKeywords :: "string list"
  QueryCommands :: "MetadataCommand list"

definition GetTriggerKeywords :: "Instance \<Rightarrow> string list" where
  "GetTriggerKeywords instance = TriggerKeywords instance"

definition GetQueryCommands :: "Instance \<Rightarrow> MetadataCommand list" where
  "GetQueryCommands instance = QueryCommands instance"

datatype QueryType = QueryTypeInput | QueryTypeSelection

text \<open>
  Modelled from the spec: \<^verbatim>\<open>util.Selection\<close> is declared outside the two source files; it is
  an opaque payload with a string representation. The parser leaves it at its zero value.
\<close>

record Selection =
  SelectionPayload :: string
  SelectionString :: string

definition zero_Selection :: Selection where
  "zero_Selection = \<lparr>SelectionPayload = [], SelectionString = []\<rparr>"

record Query =
  Type :: QueryType
  RawQuery :: string
  TriggerKeyword :: string
  Command :: string
  Search :: string
  Selection :: Selection

definition IsGlobalQuery :: "Query \<Rightarrow> bool" where
  "IsGlobalQuery q = (Type q = QueryTypeInput \<and> TriggerKeyword q = [])"

subsection \<open>newQueryInputWithPlugins\<close>

text \<open>
  The function of the source, branch by branch. Every \<^verbatim>\<open>terms[i]\<close> and \<^verbatim>\<open>terms[i:]\<close> goes
  through \<^const>\<open>index\<close> and \<^const>\<open>slice_from\<close>, so that a panic of the source would be
  an \<open>Inl\<close> of the model. Fields the source leaves unset hold Go's zero values.
\<close>

definition newQueryInputWithPlugins :: "string \<Rightarrow> Instance list \<Rightarrow> panic + Query" where
  "newQueryInputWithPlugins query pluginInstances =
     (let terms = strings_Split query space in
      if length terms = 0 then
        Inr \<lparr>Type = QueryTypeInput, RawQuery = query, TriggerKeyword = [], Command = [],
             Search = [], Selection = zero_Selection\<rparr>
      else
        (case index terms 0 of
           Inl e \<Rightarrow> Inl e
         | Inr possibleTriggerKeyword \<Rightarrow>
            (let rawQuery = query;
                 mustContainSpace = strings_Contains query space;
                 found = lo_Find pluginInstances
                           (\<lambda>instance. lo_Contains (GetTriggerKeywords instance) possibleTriggerKeyword)
             in
             (case (case found of
                      Some pluginInstance \<Rightarrow>
                        if mustContainSpace then
                          (if length terms = 1 then Inr (possibleTriggerKeyword, [], [])
                           else if length terms = 2 then
                             (case index terms 1 of
                                Inl e \<Rightarrow> Inl e
                              | Inr t1 \<Rightarrow> Inr (possibleTriggerKeyword, [], t1))
                           else
                             (case index terms 1 of
                                Inl e \<Rightarrow> Inl e
                              | Inr possibleCommand \<Rightarrow>
                                  if lo_ContainsBy (GetQueryCommands pluginInstance)
                                       (\<lambda>item. Command_of item = possibleCommand)
                                  then
                                    (case slice_from terms 2 of
                                       Inl e \<Rightarrow> Inl e
                                     | Inr ts \<Rightarrow> Inr (possibleTriggerKeyword, possibleCommand,
                                                     strings_Join ts [space]))
                                  else
                                    (case slice_from terms 1 of
                                       Inl e \<Rightarrow> Inl e
                                     | Inr ts \<Rightarrow> Inr (possibleTriggerKeyword, [],
                                                     strings_Join ts [space]))))
                        else Inr ([], [], rawQuery)
                    | None \<Rightarrow> Inr ([], [], rawQuery)) of
                Inl e \<Rightarrow> Inl e
              | Inr (triggerKeyword, command, search) \<Rightarrow>
                  Inr \<lparr>Type = QueryTypeInput, RawQuery = query, TriggerKeyword = triggerKeyword,
                       Command = command, Search = search, Selection = zero_Selection\<rparr>))))"

section \<open>Query results and their conversion for the UI (plugin/query.go)\<close>

text \<open>
  The image and preview payloads (\<^verbatim>\<open>WoxImage\<close>, \<^verbatim>\<open>WoxPreview\<close>) and the callbacks
  (\<^verbatim>\<open>Action\<close>, \<^verbatim>\<open>OnRefresh\<close>) are declared outside the two source files; they are type
  parameters. \<^verbatim>\<open>RefreshInterval\<close> is a Go \<^verbatim>\<open>int\<close> and \<^verbatim>\<open>Score\<close> an \<^verbatim>\<open>int64\<close>; the code only
  copies them, so no arithmetic can wrap, and they are integers here. The fields of the
  UI records carry the suffix \<open>_ui\<close>, the fields of an action the suffix \<open>_a\<close>.
\<close>

record ('img, 'act) QueryResultAction =
  Id_a :: string
  Name_a :: string
  Icon_a :: 'img
  IsDefault_a :: bool
  PreventHideAfterAction_a :: bool
  Action_a :: 'act

record ('img, 'pv, 'act, 'rfr) QueryResult =
  Id_r :: string
  Title :: string
  SubTitle :: string
  Icon :: 'img
  Preview :: 'pv
  Score :: int
  ContextData :: string
  Actions :: "('img, 'act) QueryResultAction list"
  RefreshInterval :: int
  OnRefresh :: 'rfr

record 'img QueryResultActionUI =
  Id_a_ui :: string
  Name_a_ui :: string
  Icon_a_ui :: 'img
  IsDefault_a_ui :: bool
  PreventHideAfterAction_a_ui :: bool

record ('img, 'pv) QueryResultUI =
  QueryId_ui :: string
  Id_ui :: string
  Title_ui :: string
  SubTitle_ui :: string
  Icon_ui :: 'img
  Preview_ui :: 'pv
  Score_ui :: int
  ContextData_ui :: string
  Actions_ui :: "'img QueryResultActionUI list"
  RefreshInterval_ui :: int

text \<open>\<^verbatim>\<open>ToUI\<close> leaves \<^verbatim>\<open>QueryId\<close> unset, which is the empty string in Go.\<close>

definition ToUI :: "('img, 'pv, 'act, 'rfr) QueryResult \<Rightarrow> ('img, 'pv) QueryResultUI" where
  "ToUI q =
     \<lparr>QueryId_ui = [],
      Id_ui = Id_r q,
      Title_ui = Title q,
      SubTitle_ui = SubTitle q,
      Icon_ui = Icon q,
      Preview_ui = Preview q,
      Score_ui = Score q,
      ContextData_ui = ContextData q,
      Actions_ui = map (\<lambda>action.
          \<lparr>Id_a_ui = Id_a action,
           Name_a_ui = Name_a action,
           Icon_a_ui = Icon_a action,
           IsDefault_a_ui = IsDefault_a action,
           PreventHideAfterAction_a_ui = PreventHideAfterAction_a action\<rparr>) (Actions q),
      RefreshInterval_ui = RefreshInterval q\<rparr>"

section \<open>Request handling (ui/ui_impl.go)\<close>

subsection \<open>Requests, responses and the plugin layer\<close>

text \<open>
  Modelled from the spec: \<^verbatim>\<open>websocketRequest\<close> and the three response functions are declared
  outside the two source files. A request has an id, a method and string parameters; a
  handler answers it by calling \<^verbatim>\<open>responseUIError\<close>, \<^verbatim>\<open>responseUISuccessWithData\<close> or
  \<^verbatim>\<open>responseUISuccess\<close>. A missing key of the Go map is \<open>None\<close>.
\<close>

record websocketRequest =
  Id_req :: string
  Method :: string
  Params :: "string \<rightharpoonup> string"

text \<open>
  What a handler does to the outside is a list of effects, in the order of the calls: the
  responses (with the data handed over: a batch of results, or the \<^verbatim>\<open>[]string{}\<close> of the
  empty answers), the query issued to the plugin manager (named by its raw text:
  \<^verbatim>\<open>plugin.NewQuery\<close> is outside the two source files), the lookup of an action and the
  call of the action found. Log lines are left out. The results of a batch and the
  actions are type parameters; \<^verbatim>\<open>handleQuery\<close> runs no action and \<^verbatim>\<open>handleAction\<close> sends no
  results, so each has \<^typ>\<open>unit\<close> for the parameter it does not use.
\<close>

datatype 'r payload = Results "'r list" | Strings "string list"

datatype ('r, 'a) effect =
    responseUIError websocketRequest string
  | responseUISuccessWithData websocketRequest "'r payload"
  | responseUISuccess websocketRequest
  | PluginManager_Query string
  | PluginManager_GetAction string
  | RunAction 'a

text \<open>
  The plugin layer answers a query on two channels. What the \<^verbatim>\<open>select\<close> of the loop
  receives, one \<^verbatim>\<open>select\<close> after the other, is a list of arrivals: a batch on
  \<^verbatim>\<open>resultChan\<close> or the signal on \<^verbatim>\<open>doneChan\<close>, each with the time in milliseconds between
  the moment this \<^verbatim>\<open>select\<close> starts to wait and the moment the signal is ready. The list
  is finite: it stands for that many signals followed by silence, so when it is
  exhausted nothing arrives any more and the timer of that wait fires. A stream that
  never ends (also a closed \<^verbatim>\<open>resultChan\<close>, which yields empty batches for ever) has no such
  list, and nothing is derived about it. Time is counted in milliseconds from the start
  of the dispatch, and handling a signal takes no time.
\<close>

datatype 'r signal = Batch "'r list" | Done

type_synonym 'r arrival = "nat \<times> 'r signal"

text \<open>\<^verbatim>\<open>time.Second * 10\<close>, in milliseconds.\<close>

definition timeout_ms :: nat where
  "timeout_ms = 10000"

definition timeout_message :: "string \<Rightarrow> websocketRequest \<Rightarrow> string" where
  "timeout_message query request =
     ''query timeout, query: '' @ query @ '', request id: '' @ Id_req request"

subsection \<open>handleQuery\<close>

text \<open>
  The \<^verbatim>\<open>for { select { ... } }\<close> of \<^verbatim>\<open>handleQuery\<close>. Each iteration evaluates
  \<^verbatim>\<open>time.After(time.Second * 10)\<close> anew, so the timer of an iteration starts when that
  iteration starts to wait, at \<open>now\<close>. The timer wins when the next signal is not ready
  before it fires. When both are ready at the same instant Go picks either; the model
  picks the timer, and the statements about the timeout below leave a wait of exactly
  \<^const>\<open>timeout_ms\<close> out. Every effect carries the time at which it happens.
\<close>

fun select_loop ::
  "websocketRequest \<Rightarrow> string \<Rightarrow> nat \<Rightarrow> 'r arrival list \<Rightarrow> (nat \<times> ('r, unit) effect) list" where
  "select_loop request query now [] =
     [(now + timeout_ms, responseUIError request (timeout_message query request))]"
| "select_loop request query now ((delay, sig) # arrivals) =
     (if timeout_ms \<le> delay then
        [(now + timeout_ms, responseUIError request (timeout_message query request))]
      else
        (case sig of
           Batch results \<Rightarrow>
             if length results = 0 then select_loop request query (now + delay) arrivals
             else (now + delay, responseUISuccessWithData request (Results results))
                    # select_loop request query (now + delay) arrivals
         | Done \<Rightarrow> [(now + delay, responseUISuccessWithData request (Strings []))]))"

definition handleQuery ::
  "'r arrival list \<Rightarrow> websocketRequest \<Rightarrow> (nat \<times> ('r, unit) effect) list" where
  "handleQuery arrivals request =
     (case Params request ''query'' of
        None \<Rightarrow> [(0, responseUIError request ''query parameter not found'')]
      | Some query \<Rightarrow>
          if query = [] then [(0, responseUISuccessWithData request (Strings []))]
          else (0, PluginManager_Query query) # select_loop request query 0 arrivals)"

subsection \<open>handleAction\<close>

text \<open>
  \<^verbatim>\<open>GetAction\<close> of the plugin manager is a parameter: the action cached for a result id,
  or \<open>None\<close> for Go's \<^verbatim>\<open>nil\<close>.
\<close>

definition handleAction :: "(string \<rightharpoonup> 'a) \<Rightarrow> websocketRequest \<Rightarrow> (unit, 'a) effect list" where
  "handleAction getAction request =
     (case Params request ''id'' of
        None \<Rightarrow> [responseUIError request ''id parameter not found'']
      | Some resultId \<Rightarrow>
          PluginManager_GetAction resultId #
          (case getAction resultId of
             None \<Rightarrow> [responseUIError request (''action not found for result id: '' @ resultId)]
           | Some action \<Rightarrow> [RunAction action, responseUISuccess request]))"

subsection \<open>Reading a log of effects\<close>


definition in_time :: "'r arrival \<Rightarrow> bool" where
  "in_time a = (fst a < timeout_ms)"

definition is_Done :: "'r arrival \<Rightarrow> bool" where
  "is_Done a = (snd a = Done)"

fun batch_of :: "'r arrival \<Rightarrow> 'r list" where
  "batch_of (delay, Batch results) = results"
| "batch_of (delay, Done) = []"

definition taken_batches :: "'r arrival list \<Rightarrow> 'r list list" where
  "taken_batches arrivals =
     map batch_of (takeWhile (\<lambda>a. in_time a \<and> \<not> is_Done a) arrivals)"



section \<open>Facts about the library functions\<close>

lemma strings_Split_not_Nil: "strings_Split s sep \<noteq> []"
  by (induction s) (auto split: list.splits)

lemma strings_Split_no_sep: "sep \<notin> set s \<Longrightarrow> strings_Split s sep = [s]"
  by (induction s) auto

lemma strings_Split_sep_in:
  assumes "2 \<le> length (strings_Split s sep)"
  shows "sep \<in> set s"
proof (rule ccontr)
  assume "sep \<notin> set s"
  then have "strings_Split s sep = [s]" by (rule strings_Split_no_sep)
  with assms show False by simp
qed

lemma lo_ContainsBy_iff: "lo_ContainsBy xs p \<longleftrightarrow> (\<exists>x \<in> set xs. p x)"
  by (induction xs) auto

lemma lo_Contains_iff: "lo_Contains xs e \<longleftrightarrow> e \<in> set xs"
  by (auto simp: lo_Contains_def lo_ContainsBy_iff)

lemma lo_Find_Some_iff: "(\<exists>y. lo_Find xs p = Some y) \<longleftrightarrow> (\<exists>x \<in> set xs. p x)"
  by (induction xs) auto

lemma index_0_Cons: "index (x # xs) 0 = Inr x"
  by (simp add: index_def)

lemma index_1_Cons: "index (x # y # xs) (Suc 0) = Inr y"
  by (simp add: index_def)

lemma slice_from_1: "slice_from (x # xs) (Suc 0) = Inr xs"
  by (simp add: slice_from_def)

lemma slice_from_2: "slice_from (x # y # xs) 2 = Inr xs"
  by (simp add: slice_from_def)

text \<open>A keyword some instance declares is found by the parser's \<^const>\<open>lo_Find\<close>.\<close>

lemma registered_found:
  assumes "\<exists>instance \<in> set insts. kw \<in> set (GetTriggerKeywords instance)"
  shows "\<exists>p. lo_Find insts (\<lambda>instance. lo_Contains (GetTriggerKeywords instance) kw) = Some p"
  using assms lo_Find_Some_iff [of insts "\<lambda>instance. lo_Contains (GetTriggerKeywords instance) kw"]
  by (auto simp: lo_Contains_iff)

text \<open>Two terms or more mean that the raw text has a space.\<close>

lemma two_terms_contain_space:
  assumes "strings_Split raw space = t0 # t1 # ts"
  shows "strings_Contains raw space"
proof -
  have "2 \<le> length (strings_Split raw space)"
    by (simp add: assms)
  then show ?thesis
    unfolding strings_Contains_def by (rule strings_Split_sep_in)
qed

lemma select_loop_not_Nil: "select_loop request query now arrivals \<noteq> []"
  by (induction arrivals arbitrary: now) (auto split: signal.splits if_splits)

section \<open>The dispatch loop\<close>






section \<open>The conversion of a result for the UI\<close>

lemma ToUI_RefreshInterval: "RefreshInterval_ui (ToUI q) = RefreshInterval q"
  by (simp add: ToUI_def)

text \<open>
  C2. The comment on \<^verbatim>\<open>RefreshInterval\<close> promises that an interval which 100 does not divide
  is replaced by a multiple of 100. \<^verbatim>\<open>ToUI\<close> copies the field: an interval of 123
  milliseconds reaches the UI as 123.
\<close>

theorem ToUI_interval_unchanged_at_123:
  "RefreshInterval_ui (ToUI
      \<lparr>Id_r = ''r1'', Title = ''t'', SubTitle = ''s'', Icon = (), Preview = (), Score = 0,
       ContextData = [], Actions = [], RefreshInterval = 123, OnRefresh = ()\<rparr>) = 123
   \<and> \<not> (100::int) dvd 123"
  by (simp add: ToUI_def)

section \<open>The parser\<close>

text \<open>
  C3. A raw text without a space is never routed: the trigger keyword and the command are
  empty and the search is the whole raw text, whatever the registry holds, also when the
  raw text is a registered trigger keyword.
\<close>

theorem no_space_never_routed:
  assumes "space \<notin> set raw"
  shows "newQueryInputWithPlugins raw insts =
           Inr \<lparr>Type = QueryTypeInput, RawQuery = raw, TriggerKeyword = [], Command = [],
                Search = raw, Selection = zero_Selection\<rparr>"
proof -
  have terms: "strings_Split raw space = [raw]"
    using assms by (rule strings_Split_no_sep)
  show ?thesis
    using assms
    by (simp add: newQueryInputWithPlugins_def Let_def terms index_0_Cons strings_Contains_def
        split: option.split)
qed

theorem no_space_never_routed_witness:
  "space \<notin> set ''wpm'' \<and>
   newQueryInputWithPlugins ''wpm''
     [\<lparr>TriggerKeywords = [''wpm''],
       QueryCommands = [\<lparr>Command_of = ''install'', Description = []\<rparr>]\<rparr>] =
     Inr \<lparr>Type = QueryTypeInput, RawQuery = ''wpm'', TriggerKeyword = [], Command = [],
          Search = ''wpm'', Selection = zero_Selection\<rparr>"
proof -
  have h: "space \<notin> set ''wpm''" by (simp add: space_def)
  show ?thesis using h no_space_never_routed [OF h] by simp
qed

text \<open>
  C4. When the raw text splits into exactly two terms and the first is a trigger keyword
  of some plugin instance, the query is routed to that keyword, the command is empty and
  the search is the second term, also when the second term is a command of the plugin.
\<close>

theorem two_terms_second_is_search:
  assumes terms: "strings_Split raw space = [kw, w]"
    and registered: "\<exists>instance \<in> set insts. kw \<in> set (GetTriggerKeywords instance)"
  shows "newQueryInputWithPlugins raw insts =
           Inr \<lparr>Type = QueryTypeInput, RawQuery = raw, TriggerKeyword = kw, Command = [],
                Search = w, Selection = zero_Selection\<rparr>"
proof -
  have sp: "strings_Contains raw space"
    using terms by (rule two_terms_contain_space)
  from registered obtain p
    where "lo_Find insts (\<lambda>instance. lo_Contains (GetTriggerKeywords instance) kw) = Some p"
    using registered_found by blast
  then show ?thesis
    by (simp add: newQueryInputWithPlugins_def Let_def terms index_0_Cons index_1_Cons sp)
qed

theorem two_terms_second_is_search_witness:
  "strings_Split ''wpm install'' space = [''wpm'', ''install'']
   \<and> newQueryInputWithPlugins ''wpm install''
       [\<lparr>TriggerKeywords = [''wpm''],
         QueryCommands = [\<lparr>Command_of = ''install'', Description = []\<rparr>]\<rparr>] =
       Inr \<lparr>Type = QueryTypeInput, RawQuery = ''wpm install'', TriggerKeyword = ''wpm'',
            Command = [], Search = ''install'', Selection = zero_Selection\<rparr>"
proof -
  have terms: "strings_Split ''wpm install'' space = [''wpm'', ''install'']"
    by (simp add: space_def)
  have registered: "\<exists>instance \<in> set [\<lparr>TriggerKeywords = [''wpm''],
      QueryCommands = [\<lparr>Command_of = ''install'', Description = []\<rparr>]\<rparr>].
      ''wpm'' \<in> set (GetTriggerKeywords instance)"
    by (simp add: GetTriggerKeywords_def)
  show ?thesis
    using terms two_terms_second_is_search [OF terms registered] by simp
qed

text \<open>
  C5. When the raw text splits into three terms or more and the first is a trigger
  keyword of some plugin instance, the parser matches the first such instance of the
  registry. If the second term is a command of that instance, it is the command and the
  search is the terms from the third on, joined with single spaces; otherwise the command
  is empty and the search is the terms from the second on, joined with single spaces.
\<close>

theorem three_or_more_terms:
  assumes terms: "strings_Split raw space = kw # t1 # t2 # ts"
    and registered: "\<exists>instance \<in> set insts. kw \<in> set (GetTriggerKeywords instance)"
  shows "\<exists>p. lo_Find insts (\<lambda>instance. lo_Contains (GetTriggerKeywords instance) kw) = Some p \<and>
           newQueryInputWithPlugins raw insts =
             Inr (if t1 \<in> Command_of ` set (GetQueryCommands p)
                  then \<lparr>Type = QueryTypeInput, RawQuery = raw, TriggerKeyword = kw,
                        Command = t1, Search = strings_Join (t2 # ts) [space],
                        Selection = zero_Selection\<rparr>
                  else \<lparr>Type = QueryTypeInput, RawQuery = raw, TriggerKeyword = kw,
                        Command = [], Search = strings_Join (t1 # t2 # ts) [space],
                        Selection = zero_Selection\<rparr>)"
proof -
  have sp: "strings_Contains raw space"
    using terms by (rule two_terms_contain_space)
  from registered obtain p
    where p: "lo_Find insts (\<lambda>instance. lo_Contains (GetTriggerKeywords instance) kw) = Some p"
    using registered_found by blast
  have cmd: "lo_ContainsBy (GetQueryCommands p) (\<lambda>item. Command_of item = t1)
               \<longleftrightarrow> t1 \<in> Command_of ` set (GetQueryCommands p)"
    by (auto simp: lo_ContainsBy_iff)
  have "newQueryInputWithPlugins raw insts =
          Inr (if t1 \<in> Command_of ` set (GetQueryCommands p)
               then \<lparr>Type = QueryTypeInput, RawQuery = raw, TriggerKeyword = kw,
                     Command = t1, Search = strings_Join (t2 # ts) [space],
                     Selection = zero_Selection\<rparr>
               else \<lparr>Type = QueryTypeInput, RawQuery = raw, TriggerKeyword = kw,
                     Command = [], Search = strings_Join (t1 # t2 # ts) [space],
                     Selection = zero_Selection\<rparr>)"
    by (simp add: newQueryInputWithPlugins_def Let_def terms index_0_Cons index_1_Cons
        slice_from_1 slice_from_2 sp p cmd)
  with p show ?thesis by blast
qed

text \<open>
  \<^verbatim>\<open>"wpm install foo"\<close> with \<open>install\<close> declared is the command \<open>install\<close> with the search
  \<open>foo\<close>; \<^verbatim>\<open>"wpm remove foo bar"\<close> with \<open>remove\<close> not declared is the search
  \<^verbatim>\<open>"remove foo bar"\<close>.
\<close>

theorem three_or_more_terms_witness:
  "strings_Split ''wpm install foo'' space = [''wpm'', ''install'', ''foo'']
   \<and> newQueryInputWithPlugins ''wpm install foo''
       [\<lparr>TriggerKeywords = [''wpm''],
         QueryCommands = [\<lparr>Command_of = ''install'', Description = []\<rparr>]\<rparr>] =
       Inr \<lparr>Type = QueryTypeInput, RawQuery = ''wpm install foo'', TriggerKeyword = ''wpm'',
            Command = ''install'', Search = ''foo'', Selection = zero_Selection\<rparr>
   \<and> strings_Split ''wpm remove foo bar'' space = [''wpm'', ''remove'', ''foo'', ''bar'']
   \<and> newQueryInputWithPlugins ''wpm remove foo bar''
       [\<lparr>TriggerKeywords = [''wpm''],
         QueryCommands = [\<lparr>Command_of = ''install'', Description = []\<rparr>]\<rparr>] =
       Inr \<lparr>Type = QueryTypeInput, RawQuery = ''wpm remove foo bar'', TriggerKeyword = ''wpm'',
            Command = [], Search = ''remove foo bar'', Selection = zero_Selection\<rparr>"
proof -
  have terms: "strings_Split ''wpm install foo'' space = ''wpm'' # ''install'' # ''foo'' # []"
    by (simp add: space_def)
  have terms': "strings_Split ''wpm remove foo bar'' space = ''wpm'' # ''remove'' # ''foo'' # [''bar'']"
    by (simp add: space_def)
  have registered: "\<exists>instance \<in> set [\<lparr>TriggerKeywords = [''wpm''],
      QueryCommands = [\<lparr>Command_of = ''install'', Description = []\<rparr>]\<rparr>].
      ''wpm'' \<in> set (GetTriggerKeywords instance)"
    by (simp add: GetTriggerKeywords_def)
  show ?thesis
    using terms terms' three_or_more_terms [OF terms registered]
      three_or_more_terms [OF terms' registered]
    by (simp add: lo_Contains_def GetTriggerKeywords_def GetQueryCommands_def space_def)
qed

text \<open>
  C6. The empty raw text is parsed without an error, whatever the registry holds, into
  an input query whose raw query, trigger keyword, command and search are all empty.
\<close>

theorem empty_input:
  "newQueryInputWithPlugins [] insts =
     Inr \<lparr>Type = QueryTypeInput, RawQuery = [], TriggerKeyword = [], Command = [],
          Search = [], Selection = zero_Selection\<rparr>"
  by (simp add: newQueryInputWithPlugins_def Let_def index_0_Cons strings_Contains_def
      split: option.split)

text \<open>The same with a plugin that declares the empty string as a trigger keyword.\<close>

theorem empty_input_witness:
  "newQueryInputWithPlugins [] [\<lparr>TriggerKeywords = [[]], QueryCommands = []\<rparr>] =
     Inr \<lparr>Type = QueryTypeInput, RawQuery = [], TriggerKeyword = [], Command = [],
          Search = [], Selection = zero_Selection\<rparr>"
  by (rule empty_input)

text \<open>
  C10. The parser is total: for every raw text and every registry it returns a query,
  never a panic, and the query has the type \<open>QueryTypeInput\<close> and the raw text as its raw
  query. Splitting yields at least one term, so the branch for no terms is never taken
  and the read of the first term is in range.
\<close>

theorem parser_total:
  "(\<exists>q. newQueryInputWithPlugins raw insts = Inr q \<and> Type q = QueryTypeInput \<and> RawQuery q = raw)
   \<and> 1 \<le> length (strings_Split raw space)
   \<and> (\<exists>t. index (strings_Split raw space) 0 = Inr t)"
proof -
  obtain t ts where terms: "strings_Split raw space = t # ts"
    using strings_Split_not_Nil [of raw space] by (cases "strings_Split raw space") auto
  have "\<exists>q. newQueryInputWithPlugins raw insts = Inr q \<and> Type q = QueryTypeInput \<and> RawQuery q = raw"
  proof (cases ts)
    case Nil
    then show ?thesis
      by (simp add: newQueryInputWithPlugins_def Let_def terms index_0_Cons
          split: option.split)
  next
    case (Cons t1 ts1)
    show ?thesis
    proof (cases ts1)
      case Nil
      with Cons show ?thesis
        by (simp add: newQueryInputWithPlugins_def Let_def terms index_0_Cons index_1_Cons
            split: option.split)
    next
      case (Cons t2 ts2)
      with \<open>ts = t1 # ts1\<close> show ?thesis
        by (simp add: newQueryInputWithPlugins_def Let_def terms index_0_Cons index_1_Cons
            slice_from_1 slice_from_2 split: option.split)
    qed
  qed
  then show ?thesis
    by (simp add: terms index_0_Cons)
qed

theorem parser_total_witness:
  "(\<exists>q. newQueryInputWithPlugins ''wpm  install '' [\<lparr>TriggerKeywords = [''wpm''], QueryCommands = []\<rparr>]
          = Inr q \<and> Type q = QueryTypeInput \<and> RawQuery q = ''wpm  install '')
   \<and> 1 \<le> length (strings_Split ''wpm  install '' space)
   \<and> (\<exists>t. index (strings_Split ''wpm  install '' space) 0 = Inr t)"
  by (rule parser_total)

section \<open>The request handlers\<close>

text \<open>
  C7. A query request whose query parameter is present and empty is answered with one
  empty success response and nothing else: no query is issued to the plugin manager,
  whatever the plugin layer would have delivered.
\<close>

theorem empty_query_no_fan_out:
  assumes "Params request ''query'' = Some []"
  shows "handleQuery arrivals request = [(0, responseUISuccessWithData request (Strings []))]
         \<and> (\<forall>t q. (t, PluginManager_Query q) \<notin> set (handleQuery arrivals request))"
  using assms by (simp add: handleQuery_def)

theorem empty_query_no_fan_out_witness:
  "Params \<lparr>Id_req = ''1'', Method = ''Query'', Params = [''query'' \<mapsto> []]\<rparr> ''query'' = Some []
   \<and> handleQuery [(5, Batch [''x'']), (5, Done)]
       \<lparr>Id_req = ''1'', Method = ''Query'', Params = [''query'' \<mapsto> []]\<rparr> =
     [(0, responseUISuccessWithData
         \<lparr>Id_req = ''1'', Method = ''Query'', Params = [''query'' \<mapsto> []]\<rparr> (Strings []))]"
proof -
  have h: "Params \<lparr>Id_req = ''1'', Method = ''Query'', Params = [''query'' \<mapsto> []]\<rparr> ''query'' = Some []"
    by simp
  show ?thesis
    using h empty_query_no_fan_out [OF h, of "[(5, Batch [''x'']), (5, Done)]"] by simp
qed

text \<open>
  C8. The responses of the loop before its last one are the non-empty batches it
  received, each forwarded as a success response with that batch, in the order received;
  an empty batch is dropped. The last response is the empty success response of
  completion or the timeout error, never a batch.
\<close>

theorem batches_forwarded_in_order:
  "map snd (butlast (select_loop request query now arrivals)) =
     map (\<lambda>results. responseUISuccessWithData request (Results results))
       (filter (\<lambda>results. results \<noteq> []) (taken_batches arrivals))
   \<and> (snd (last (select_loop request query now arrivals)) =
          responseUISuccessWithData request (Strings [])
      \<or> snd (last (select_loop request query now arrivals)) =
          responseUIError request (timeout_message query request))"
proof (induction arrivals arbitrary: now)
  case Nil
  show ?case by (simp add: taken_batches_def)
next
  case (Cons a arrivals)
  obtain delay sig where a: "a = (delay, sig)" by (cases a)
  show ?case
  proof (cases "timeout_ms \<le> delay")
    case True
    then show ?thesis by (simp add: a taken_batches_def in_time_def)
  next
    case early: False
    show ?thesis
    proof (cases sig)
      case Done
      with early show ?thesis by (simp add: a taken_batches_def in_time_def is_Done_def)
    next
      case (Batch results)
      have tb: "taken_batches ((delay, Batch results) # arrivals) = results # taken_batches arrivals"
        using early by (simp add: taken_batches_def in_time_def is_Done_def)
      show ?thesis
        using early Cons.IH [of "now + delay"]
        by (simp add: a Batch tb select_loop_not_Nil)
    qed
  qed
qed

theorem batches_forwarded_in_order_witness:
  "map snd (butlast (select_loop \<lparr>Id_req = ''1'', Method = ''Query'', Params = [''query'' \<mapsto> ''a'']\<rparr>
       ''a'' 0 [(5, Batch [''x'']), (5, Batch []), (5, Batch [''y'', ''z'']), (5, Done)])) =
     [responseUISuccessWithData
        \<lparr>Id_req = ''1'', Method = ''Query'', Params = [''query'' \<mapsto> ''a'']\<rparr> (Results [''x'']),
      responseUISuccessWithData
        \<lparr>Id_req = ''1'', Method = ''Query'', Params = [''query'' \<mapsto> ''a'']\<rparr> (Results [''y'', ''z''])]"
  using batches_forwarded_in_order [of "\<lparr>Id_req = ''1'', Method = ''Query'', Params = [''query'' \<mapsto> ''a'']\<rparr>"
      "''a''" 0 "[(5, Batch [''x'']), (5, Batch []), (5, Batch [''y'', ''z'']), (5, Done)]"]
  by (simp add: taken_batches_def in_time_def is_Done_def timeout_ms_def)

text \<open>
  C9. A query request without the \<open>query\<close> parameter and an action request without the
  \<open>id\<close> parameter are answered with one error response and nothing else: no query is
  issued to the plugin manager and no action is looked up.
\<close>

theorem missing_parameter:
  "(Params request ''query'' = None \<longrightarrow>
      handleQuery arrivals request = [(0, responseUIError request ''query parameter not found'')])
   \<and> (Params request ''id'' = None \<longrightarrow>
      handleAction getAction request = [responseUIError request ''id parameter not found''])"
  by (simp add: handleQuery_def handleAction_def)

theorem missing_parameter_witness:
  "Params \<lparr>Id_req = ''1'', Method = ''Query'', Params = Map.empty\<rparr> ''query'' = None
   \<and> handleQuery [(5, Batch [''x'']), (5, Done)] \<lparr>Id_req = ''1'', Method = ''Query'', Params = Map.empty\<rparr> =
       [(0, responseUIError \<lparr>Id_req = ''1'', Method = ''Query'', Params = Map.empty\<rparr>
              ''query parameter not found'')]
   \<and> Params \<lparr>Id_req = ''2'', Method = ''Action'', Params = Map.empty\<rparr> ''id'' = None
   \<and> handleAction [''r1'' \<mapsto> ()] \<lparr>Id_req = ''2'', Method = ''Action'', Params = Map.empty\<rparr> =
       [responseUIError \<lparr>Id_req = ''2'', Method = ''Action'', Params = Map.empty\<rparr>
              ''id parameter not found'']"
  using missing_parameter [of "\<lparr>Id_req = ''1'', Method = ''Query'', Params = Map.empty\<rparr>"
      "[(5, Batch [''x'']), (5, Done)]" "[''r1'' \<mapsto> ()]"]
    missing_parameter [of "\<lparr>Id_req = ''2'', Method = ''Action'', Params = Map.empty\<rparr>"
      "[(5, Batch [''x'']), (5, Done)]" "[''r1'' \<mapsto> ()]"]
  by simp

end
